theory Spec2Isabelle
  imports Complex_Main "HOL-Library.FSet" "HOL-Library.Char_ord" "HOL-Library.List_Lexorder"
begin

section \<open>The driving stage of a transportable (MSStageDriving.cpp)\<close>

text \<open>
  The stage is a C++ object that holds raw pointers to its collaborators. The model keeps
  the stage as a record, passes it explicitly through every mutator, and represents
  \<^item> a nullable pointer to an immutable collaborator (edge, stop) as an \<open>option\<close> of its
    observable attributes;
  \<^item> the pointer to the carrying vehicle as a handle into the vehicle store of the net,
    since the vehicle keeps moving between the moment it is bound and the arrival;
  \<^item> every call into a collaborator whose code lives in another file (vehicle, edge,
    insertion control, waiting registries, taxi device, output device) as an entry of
    a call log, in program order;
  \<^item> \<open>SUMOTime\<close> (a signed count of milliseconds, declared in another file) as \<open>int\<close>
    and \<open>double\<close> as \<open>real\<close>: the functions of this file only compare, copy and
    subtract such values;
  \<^item> \<open>std::set<std::string>\<close> as a finite set of strings, iterated in the order of
    \<open>std::string\<close>, which is the lexicographic order on bytes.
\<close>

subsection \<open>Collaborator types\<close>

type_synonym SUMOTime = int

type_synonym Position = "real \<times> real \<times> real"

text \<open>The sentinel \<open>Position::INVALID\<close>; only stored by this file, never inspected by the
  functions modelled here.\<close>

definition Position_INVALID :: Position where
  "Position_INVALID = (- 1024 * 1024 * 1024, - 1024 * 1024 * 1024, - 1024 * 1024 * 1024)"

datatype DepartDefinition =
  DEPART_GIVEN | DEPART_NOW | DEPART_TRIGGERED | DEPART_CONTAINER_TRIGGERED

datatype MSStageType =
  WAITING_FOR_DEPART | WAITING | WALKING | DRIVING | ACCESS | TRIP | TRANSHIP

datatype SUMOVehicleClass = SVC_IGNORING | SVC nat

record MSEdge =
  edge_getID :: string
  edge_getLength :: real

record MSTransportable =
  transportable_getID :: string
  transportable_isPerson :: bool
  transportable_departProcedure :: DepartDefinition
  transportable_getNumRemainingStages :: int
  transportable_getNumStages :: int

record MSStoppingPlace =
  stop_getID :: string
  stop_getMyName :: string
  stop_getLane_getEdge :: MSEdge
  stop_getWaitPosition :: "MSTransportable \<Rightarrow> Position"
  stop_getWaitingPositionOnLane :: "MSTransportable \<Rightarrow> real"

text \<open>What this file reads of a vehicle. The route is the list of its edges and
  \<open>getCurrentRouteEdge\<close> the offset of the current edge from \<open>getRoute().begin()\<close>.\<close>

record SUMOVehicle =
  vehicle_getID :: string
  vehicle_line :: string
  vehicle_departProcedure :: DepartDefinition
  vehicle_getVClass :: SUMOVehicleClass
  vehicle_getDepartPos :: real
  vehicle_getPositionOnLane :: real
  vehicle_getRoute :: "MSEdge list"
  vehicle_getCurrentRouteEdge :: nat
  vehicle_isStopped :: bool
  vehicle_hasDeparted :: bool
  vehicle_stopsAt :: "MSStoppingPlace \<Rightarrow> bool"
  vehicle_stopsAtEdge :: "MSEdge option \<Rightarrow> bool"

type_synonym vehicle_ptr = nat

text \<open>\<open>MSRoute::getDistanceBetween(fromPos, toPos, fromEdge, toEdge)\<close> is defined in
  another file; it is a parameter of the functions that call it. Its arguments here are the
  route, the two positions and the offsets of the two route iterators.\<close>

type_synonym getDistanceBetween_fn = "MSEdge list \<Rightarrow> real \<Rightarrow> real \<Rightarrow> nat \<Rightarrow> nat \<Rightarrow> real"

text \<open>The stage that just finished, as \<open>proceed\<close> sees it through the virtual
  interface of MSStage.\<close>

record PreviousStage =
  previous_getStageType :: MSStageType
  previous_getOriginStop :: "MSStoppingPlace option"
  previous_getDestinationStop :: "MSStoppingPlace option"
  previous_getEdge :: "MSEdge option"
  previous_getEdgePos :: "SUMOTime \<Rightarrow> real"

text \<open>The queries this file makes on the net: the vehicle registry, the vehicle behind a
  handle, the vehicle waiting on an edge for a transportable at a position, the clock.\<close>

record MSNet =
  net_getVehicle :: "string \<Rightarrow> vehicle_ptr option"
  net_vehicle :: "vehicle_ptr \<Rightarrow> SUMOVehicle"
  net_getWaitingVehicle :: "MSEdge \<Rightarrow> MSTransportable \<Rightarrow> real \<Rightarrow> vehicle_ptr option"
  net_getCurrentTimeStep :: SUMOTime

text \<open>An attribute value handed to the output device: a string literal, the text
  \<open>time2string(t)\<close> of a time, the text \<open>toString(x)\<close> of a double, or a double left
  to the device to format. The two formatting functions are defined in other files; the
  sentinel \<open>"-1"\<close> is a literal of this one.\<close>

datatype attr_value = Literal string | Time2String SUMOTime | ToString real | Double real

datatype call =
    Vehicle_addTransportable vehicle_ptr MSTransportable
  | InsertionControl_add vehicle_ptr
  | Edge_removeWaiting MSEdge vehicle_ptr
  | VehicleControl_unregisterOneWaiting bool
  | PersonControl_addWaiting MSEdge MSTransportable
  | Edge_addPerson MSEdge MSTransportable
  | ContainerControl_addWaiting MSEdge MSTransportable
  | Edge_addContainer MSEdge MSTransportable
  | Taxi_addReservation MSTransportable SUMOTime SUMOTime "MSEdge option" real "MSEdge option" real
  | Tripinfo_addRideTransportData bool real SUMOTime SUMOVehicleClass string SUMOTime
  | OpenTag string
  | WriteAttr string attr_value
  | CloseTag

text \<open>\<open>ProcessError\<close> is the exception of the source; the other two are the undefined
  behaviour of dereferencing a null pointer and of reading \<open>*begin()\<close> of an empty set.\<close>

datatype error = ProcessError string | NullPointerDereference | EmptySetDereference

subsection \<open>The stage record\<close>

text \<open>The fields inherited from MSStage, then those of MSStageDriving. \<open>myWaitingPos\<close> is
  not initialised by the constructor: \<open>None\<close> until \<open>proceed\<close> assigns it.\<close>

record MSStage =
  myDestination :: "MSEdge option"
  myDestinationStop :: "MSStoppingPlace option"
  myArrivalPos :: real
  myDeparted :: SUMOTime
  myArrived :: SUMOTime
  myType :: MSStageType

record MSStageDriving = MSStage +
  myLines :: "string fset"
  myVehicle :: "vehicle_ptr option"
  myVehicleID :: string
  myVehicleLine :: string
  myVehicleVClass :: SUMOVehicleClass
  myVehicleDistance :: real
  myWaitingSince :: SUMOTime
  myWaitingEdge :: "MSEdge option"
  myStopWaitPos :: Position
  myWaitingPos :: "real option"
  myIntendedVehicleID :: string
  myIntendedDepart :: SUMOTime

subsection \<open>Helpers from other files\<close>

text \<open>Modelled from the spec: \<open>joinToString\<close> (ToString.h is not among the sources)
  writes the elements in iteration order with the separator between them ("comma-joined
  accepted lines").\<close>

fun joinToString :: "string list \<Rightarrow> string \<Rightarrow> string" where
  "joinToString [] between = []"
| "joinToString [x] between = x"
| "joinToString (x # y # ys) between = x @ between @ joinToString (y # ys) between"

text \<open>Modelled from the spec: \<open>MSStage::setArrived\<close> (MSStage.cpp is not among the
  sources) is the generic arrival bookkeeping, which "sets the inherited arrival
  timestamp".\<close>

definition MSStage_setArrived :: "SUMOTime \<Rightarrow> MSStageDriving \<Rightarrow> MSStageDriving" where
  "MSStage_setArrived now s = s\<lparr>myArrived := now\<rparr>"

text \<open>\<open>std::set::count\<close>: 1 for a member, 0 otherwise.\<close>

definition count_fset :: "string fset \<Rightarrow> string \<Rightarrow> nat" where
  "count_fset S x = (if x |\<in>| S then 1 else 0)"

definition apostrophe :: string where
  "apostrophe = [CHR 0x27]"

subsection \<open>Construction and cloning\<close>

text \<open>Modelled from the spec: the constructor of the base class MSStage (MSStage.cpp is
  not among the sources) stores the destination, the destination stop, the arrival position
  and the stage type, and starts the "resolved departedAt/arrivedAt timestamps" at the
  sentinel of "departure timestamp (or -1), arrival timestamp (or -1)".\<close>

definition MSStage_new ::
  "MSEdge option \<Rightarrow> MSStoppingPlace option \<Rightarrow> real \<Rightarrow> MSStageType \<Rightarrow> MSStage" where
  "MSStage_new destination toStop arrivalPos type =
     \<lparr> myDestination = destination,
       myDestinationStop = toStop,
       myArrivalPos = arrivalPos,
       myDeparted = - 1,
       myArrived = - 1,
       myType = type \<rparr>"

text \<open>The constructor of the driving stage: the base-class part, then the initialiser
  list. \<open>myVehicleLine\<close> is a default-constructed string and \<open>myWaitingPos\<close> is left
  uninitialised.\<close>

definition MSStageDriving_new ::
  "MSEdge option \<Rightarrow> MSStoppingPlace option \<Rightarrow> real \<Rightarrow> string list \<Rightarrow> string \<Rightarrow> SUMOTime
    \<Rightarrow> MSStageDriving" where
  "MSStageDriving_new destination toStop arrivalPos lines intendedVeh intendedDepart =
     MSStage.extend (MSStage_new destination toStop arrivalPos DRIVING)
       \<lparr> myLines = fset_of_list lines,
         myVehicle = None,
         myVehicleID = ''NULL'',
         myVehicleLine = [],
         myVehicleVClass = SVC_IGNORING,
         myVehicleDistance = - 1,
         myWaitingSince = - 1,
         myWaitingEdge = None,
         myStopWaitPos = Position_INVALID,
         myWaitingPos = None,
         myIntendedVehicleID = intendedVeh,
         myIntendedDepart = intendedDepart \<rparr>"

definition clone :: "MSStageDriving \<Rightarrow> MSStageDriving" where
  "clone s =
     MSStageDriving_new (myDestination s) (myDestinationStop s) (myArrivalPos s)
       (sorted_list_of_fset (myLines s)) (myIntendedVehicleID s) (myIntendedDepart s)"

subsection \<open>Queries\<close>

definition getFromEdge :: "MSStageDriving \<Rightarrow> MSEdge option" where
  "getFromEdge s = myWaitingEdge s"

definition isWaitingFor :: "MSStageDriving \<Rightarrow> SUMOVehicle \<Rightarrow> bool" where
  "isWaitingFor s vehicle =
     (count_fset (myLines s) (vehicle_getID vehicle) > 0
      \<or> count_fset (myLines s) (vehicle_line vehicle) > 0
      \<or> (count_fset (myLines s) ''ANY'' > 0 \<and>
          (case myDestinationStop s of
             None \<Rightarrow> vehicle_stopsAtEdge vehicle (myDestination s)
           | Some stop \<Rightarrow> vehicle_stopsAt vehicle stop)))"

definition isWaiting4Vehicle :: "MSStageDriving \<Rightarrow> bool" where
  "isWaiting4Vehicle s = (myVehicle s = None)"

definition getWaitingTime :: "MSStageDriving \<Rightarrow> SUMOTime \<Rightarrow> SUMOTime" where
  "getWaitingTime s now = (if isWaiting4Vehicle s then now - myWaitingSince s else 0)"

definition getEdges :: "MSStageDriving \<Rightarrow> MSEdge option list" where
  "getEdges s = ([] @ [getFromEdge s]) @ [myDestination s]"

definition getWaitingDescription :: "MSStageDriving \<Rightarrow> error + string" where
  "getWaitingDescription s =
     (if isWaiting4Vehicle s then
        (case myDestinationStop s of
           None \<Rightarrow>
             (case myWaitingEdge s of
                None \<Rightarrow> Inl NullPointerDereference
              | Some e \<Rightarrow>
                  Inr (''waiting for '' @ joinToString (sorted_list_of_fset (myLines s)) '',''
                       @ '' at '' @ (''edge '' @ apostrophe @ edge_getID e @ apostrophe)))
         | Some stop \<Rightarrow>
             Inr (''waiting for '' @ joinToString (sorted_list_of_fset (myLines s)) '',''
                  @ '' at '' @ (''busStop '' @ apostrophe @ stop_getID stop @ apostrophe)))
      else Inr [])"

subsection \<open>Binding and arrival\<close>

definition setVehicle ::
  "getDistanceBetween_fn \<Rightarrow> MSNet \<Rightarrow> vehicle_ptr \<Rightarrow> MSStageDriving \<Rightarrow> MSStageDriving" where
  "setVehicle getDistanceBetween net v s =
     s\<lparr> myVehicle := Some v,
        myVehicleID := vehicle_getID (net_vehicle net v),
        myVehicleLine := vehicle_line (net_vehicle net v),
        myVehicleVClass := vehicle_getVClass (net_vehicle net v),
        myVehicleDistance :=
          getDistanceBetween (vehicle_getRoute (net_vehicle net v))
            (vehicle_getDepartPos (net_vehicle net v))
            (vehicle_getPositionOnLane (net_vehicle net v))
            0 (vehicle_getCurrentRouteEdge (net_vehicle net v)) \<rparr>"

definition setArrived ::
  "getDistanceBetween_fn \<Rightarrow> MSNet \<Rightarrow> MSTransportable \<Rightarrow> SUMOTime \<Rightarrow> MSStageDriving
    \<Rightarrow> string \<times> MSStageDriving" where
  "setArrived getDistanceBetween net transportable now s =
     (let s1 = MSStage_setArrived now s
      in case myVehicle s1 of
           Some v \<Rightarrow>
             (let s2 = s1\<lparr> myVehicleDistance :=
                            getDistanceBetween (vehicle_getRoute (net_vehicle net v))
                              (vehicle_getDepartPos (net_vehicle net v))
                              (vehicle_getPositionOnLane (net_vehicle net v))
                              0 (vehicle_getCurrentRouteEdge (net_vehicle net v))
                            - myVehicleDistance s1 \<rparr>
              in if vehicle_isStopped (net_vehicle net v)
                 then ([], s2\<lparr> myArrivalPos := vehicle_getPositionOnLane (net_vehicle net v) \<rparr>)
                 else ([], s2))
         | None \<Rightarrow> ([], s1\<lparr> myVehicleDistance := - 1 \<rparr>))"

subsection \<open>Activation\<close>

text \<open>\<open>proceed\<close> returns the exception it threw (if any), the stage as it is left, and
  the calls it made on its collaborators. An exception leaves the assignments made before
  it in place. The branch that registers the transportable as waiting is shared by the two
  ways of reaching the \<open>else\<close> of the source (no vehicle available, or one that is not
  triggered or has departed). \<open>myWaitingEdge\<close> is dereferenced for the waiting vehicle, so
  a null waiting edge is the error branch; \<open>myWaitingPos\<close> has been assigned on both paths
  by then.\<close>

definition registerWaiting ::
  "MSTransportable \<Rightarrow> SUMOTime \<Rightarrow> MSEdge \<Rightarrow> real \<Rightarrow> MSStageDriving \<Rightarrow> call list" where
  "registerWaiting transportable now waitingEdge waitingPos s =
     (if transportable_isPerson transportable then
        [PersonControl_addWaiting waitingEdge transportable,
         Edge_addPerson waitingEdge transportable]
        @ (if fcard (myLines s) = 1 \<and> fMin (myLines s) = ''taxi''
           then [Taxi_addReservation transportable now now (myWaitingEdge s) waitingPos
                   (myDestination s) (myArrivalPos s)]
           else [])
      else
        [ContainerControl_addWaiting waitingEdge transportable,
         Edge_addContainer waitingEdge transportable])"

definition proceed ::
  "getDistanceBetween_fn \<Rightarrow> MSNet \<Rightarrow> MSTransportable \<Rightarrow> SUMOTime \<Rightarrow> PreviousStage
    \<Rightarrow> MSStageDriving \<Rightarrow> error option \<times> MSStageDriving \<times> call list" where
  "proceed getDistanceBetween net transportable now previous s =
     (let start = (if previous_getStageType previous = TRIP
                   then previous_getOriginStop previous
                   else previous_getDestinationStop previous);
          s1 = s\<lparr> myWaitingSince := now \<rparr>;
          isPerson = transportable_isPerson transportable
      in
      if transportable_departProcedure transportable = DEPART_TRIGGERED
         \<and> transportable_getNumRemainingStages transportable
             = transportable_getNumStages transportable - 1
      then
        (if myLines s1 = {||} then (Some EmptySetDereference, s1, [])
         else
           (let vehID = fMin (myLines s1)
            in case net_getVehicle net vehID of
                 None \<Rightarrow>
                   (Some (ProcessError
                      (''Vehicle '' @ apostrophe @ vehID @ apostrophe
                       @ '' not found for triggered departure of ''
                       @ (if isPerson then ''person'' else ''container'')
                       @ '' '' @ apostrophe @ transportable_getID transportable @ apostrophe
                       @ ''.'')),
                    s1, [])
               | Some startVeh \<Rightarrow>
                   (None, setVehicle getDistanceBetween net startVeh s1,
                    [Vehicle_addTransportable startVeh transportable])))
      else
        (let s2 = (case start of
                     Some st \<Rightarrow>
                       s1\<lparr> myWaitingEdge := Some (stop_getLane_getEdge st),
                           myStopWaitPos := stop_getWaitPosition st transportable,
                           myWaitingPos := Some (stop_getWaitingPositionOnLane st transportable) \<rparr>
                   | None \<Rightarrow>
                       s1\<lparr> myWaitingEdge := previous_getEdge previous,
                           myStopWaitPos := Position_INVALID,
                           myWaitingPos := Some (previous_getEdgePos previous now) \<rparr>)
         in case (myWaitingEdge s2, myWaitingPos s2) of
              (Some waitingEdge, Some waitingPos) \<Rightarrow>
                (let waiting = (None, s2, registerWaiting transportable now waitingEdge waitingPos s2)
                 in case net_getWaitingVehicle net waitingEdge transportable waitingPos of
                      Some availableVehicle \<Rightarrow>
                        (let triggered =
                               ((isPerson \<and> vehicle_departProcedure (net_vehicle net availableVehicle)
                                              = DEPART_TRIGGERED)
                                \<or> (\<not> isPerson \<and> vehicle_departProcedure (net_vehicle net availableVehicle)
                                                 = DEPART_CONTAINER_TRIGGERED))
                         in if triggered \<and> \<not> vehicle_hasDeparted (net_vehicle net availableVehicle)
                            then (None, setVehicle getDistanceBetween net availableVehicle s2,
                                  [Vehicle_addTransportable availableVehicle transportable,
                                   InsertionControl_add availableVehicle,
                                   Edge_removeWaiting waitingEdge availableVehicle,
                                   VehicleControl_unregisterOneWaiting True])
                            else waiting)
                    | None \<Rightarrow> waiting)
            | _ \<Rightarrow> (Some NullPointerDereference, s2, [])))"

subsection \<open>Reporting\<close>

text \<open>The statistics record: the call to the statistics aggregator, then the calls on the
  output device.\<close>

definition tripInfoOutput :: "MSNet \<Rightarrow> MSTransportable \<Rightarrow> MSStageDriving \<Rightarrow> call list" where
  "tripInfoOutput net transportable s =
     (let now = net_getCurrentTimeStep net;
          departed = (if myDeparted s \<ge> 0 then myDeparted s else now);
          waitingTime = (if myWaitingSince s \<ge> 0 then departed - myWaitingSince s else - 1);
          duration = myArrived s - myDeparted s
      in [Tripinfo_addRideTransportData (transportable_isPerson transportable)
            (myVehicleDistance s) duration (myVehicleVClass s) (myVehicleLine s) waitingTime,
          OpenTag (if transportable_isPerson transportable then ''ride'' else ''transport''),
          WriteAttr ''waitingTime''
            (if waitingTime \<ge> 0 then Time2String waitingTime else Literal ''-1''),
          WriteAttr ''vehicle'' (Literal (myVehicleID s)),
          WriteAttr ''depart''
            (if myDeparted s \<ge> 0 then Time2String (myDeparted s) else Literal ''-1''),
          WriteAttr ''arrival''
            (if myArrived s \<ge> 0 then Time2String (myArrived s) else Literal ''-1''),
          WriteAttr ''arrivalPos'' (ToString (myArrivalPos s)),
          WriteAttr ''duration''
            (if myArrived s \<ge> 0 then Time2String duration
             else if myDeparted s \<ge> 0 then Time2String (now - myDeparted s)
             else Literal ''-1''),
          WriteAttr ''routeLength'' (Double (myVehicleDistance s)),
          CloseTag])"

text \<open>The value written for an attribute of the emitted record (the first one of that
  name).\<close>

fun attribute :: "string \<Rightarrow> call list \<Rightarrow> attr_value option" where
  "attribute name [] = None"
| "attribute name (WriteAttr n v # cs) = (if n = name then Some v else attribute name cs)"
| "attribute name (c # cs) = attribute name cs"

subsection \<open>Vocabulary of the properties\<close>

text \<open>The vehicle's route-distance from its departure position to its current position,
  as both \<open>setVehicle\<close> and \<open>setArrived\<close> ask the route for it.\<close>

definition routeDistance :: "getDistanceBetween_fn \<Rightarrow> SUMOVehicle \<Rightarrow> real" where
  "routeDistance getDistanceBetween vehicle =
     getDistanceBetween (vehicle_getRoute vehicle) (vehicle_getDepartPos vehicle)
       (vehicle_getPositionOnLane vehicle) 0 (vehicle_getCurrentRouteEdge vehicle)"

text \<open>The effective departure time of the statistics record: the departure timestamp if
  the stage has departed, the current time step otherwise.\<close>

definition effectiveDeparture :: "MSNet \<Rightarrow> MSStageDriving \<Rightarrow> SUMOTime" where
  "effectiveDeparture net s = (if myDeparted s \<ge> 0 then myDeparted s else net_getCurrentTimeStep net)"

subsection \<open>A small scenario\<close>

text \<open>Two edges with a stop on each, a bus of line 42 that runs from the first edge to the
  second, a person and a container, and a net in which the bus is registered. The route
  distance of the scenario is measured along a single stretch.\<close>

definition edge1 :: MSEdge where
  "edge1 = \<lparr> edge_getID = ''e1'', edge_getLength = 200 \<rparr>"

definition edge2 :: MSEdge where
  "edge2 = \<lparr> edge_getID = ''e2'', edge_getLength = 300 \<rparr>"

definition stopA :: MSStoppingPlace where
  "stopA = \<lparr> stop_getID = ''stopA'', stop_getMyName = ''Airport'',
             stop_getLane_getEdge = edge1,
             stop_getWaitPosition = (\<lambda>t. (15, 2, 0)),
             stop_getWaitingPositionOnLane = (\<lambda>t. 15) \<rparr>"

definition stopB :: MSStoppingPlace where
  "stopB = \<lparr> stop_getID = ''stopB'', stop_getMyName = [],
             stop_getLane_getEdge = edge2,
             stop_getWaitPosition = (\<lambda>t. (250, 2, 0)),
             stop_getWaitingPositionOnLane = (\<lambda>t. 50) \<rparr>"

definition person0 :: MSTransportable where
  "person0 = \<lparr> transportable_getID = ''p0'', transportable_isPerson = True,
               transportable_departProcedure = DEPART_GIVEN,
               transportable_getNumRemainingStages = 1, transportable_getNumStages = 3 \<rparr>"

definition container0 :: MSTransportable where
  "container0 = \<lparr> transportable_getID = ''c0'', transportable_isPerson = False,
                  transportable_departProcedure = DEPART_GIVEN,
                  transportable_getNumRemainingStages = 1, transportable_getNumStages = 3 \<rparr>"

definition triggeredPerson :: MSTransportable where
  "triggeredPerson = \<lparr> transportable_getID = ''p1'', transportable_isPerson = True,
                       transportable_departProcedure = DEPART_TRIGGERED,
                       transportable_getNumRemainingStages = 1, transportable_getNumStages = 2 \<rparr>"

definition busAt :: "real \<Rightarrow> bool \<Rightarrow> SUMOVehicle" where
  "busAt pos stopped =
     \<lparr> vehicle_getID = ''bus0'', vehicle_line = ''42'',
       vehicle_departProcedure = DEPART_GIVEN, vehicle_getVClass = SVC 256,
       vehicle_getDepartPos = 5, vehicle_getPositionOnLane = pos,
       vehicle_getRoute = [edge1, edge2], vehicle_getCurrentRouteEdge = 0,
       vehicle_isStopped = stopped, vehicle_hasDeparted = True,
       vehicle_stopsAt = (\<lambda>stop. stop_getID stop = ''stopB''),
       vehicle_stopsAtEdge = (\<lambda>e. e = Some edge2) \<rparr>"

definition stretch :: getDistanceBetween_fn where
  "stretch route fromPos toPos fromEdge toEdge = toPos - fromPos"

definition netWith :: "SUMOVehicle \<Rightarrow> SUMOTime \<Rightarrow> MSNet" where
  "netWith bus now =
     \<lparr> net_getVehicle = (\<lambda>vehID. if vehID = ''bus0'' then Some 0 else None),
       net_vehicle = (\<lambda>v. bus),
       net_getWaitingVehicle = (\<lambda>e t pos. None),
       net_getCurrentTimeStep = now \<rparr>"

definition arrivedAt :: "MSStoppingPlace option \<Rightarrow> PreviousStage" where
  "arrivedAt stop =
     \<lparr> previous_getStageType = WALKING, previous_getOriginStop = None,
       previous_getDestinationStop = stop, previous_getEdge = Some edge1,
       previous_getEdgePos = (\<lambda>now. 20) \<rparr>"

definition rideTo :: "MSStoppingPlace option \<Rightarrow> string list \<Rightarrow> MSStageDriving" where
  "rideTo toStop lines = MSStageDriving_new (Some edge2) toStop 120 lines [] (- 1)"

section \<open>Properties\<close>

subsection \<open>Facts shared by several properties\<close>

text \<open>The record that the constructor builds.\<close>

lemma MSStageDriving_new_record:
  "MSStageDriving_new destination toStop arrivalPos lines intendedVeh intendedDepart =
     \<lparr> myDestination = destination, myDestinationStop = toStop, myArrivalPos = arrivalPos,
       myDeparted = - 1, myArrived = - 1, myType = DRIVING,
       myLines = fset_of_list lines, myVehicle = None, myVehicleID = ''NULL'',
       myVehicleLine = [], myVehicleVClass = SVC_IGNORING, myVehicleDistance = - 1,
       myWaitingSince = - 1, myWaitingEdge = None, myStopWaitPos = Position_INVALID,
       myWaitingPos = None, myIntendedVehicleID = intendedVeh,
       myIntendedDepart = intendedDepart \<rparr>"
  by (simp add: MSStageDriving_new_def MSStage_new_def MSStage.defs)

lemma fcard_single: "fcard {|x|} = 1"
  by (simp add: fcard_finsert_if)

lemma sorted_list_of_fset_single: "sorted_list_of_fset {|x|} = [x]"
  by (simp add: sorted_list_of_fset.rep_eq)

lemma setVehicle_bound: "myVehicle (setVehicle gdb net v s) = Some v"
  by (simp add: setVehicle_def)

text \<open>An activation that succeeds and leaves the stage unbound went through the waiting
  branch: the waiting location is set, the calls are those of \<open>registerWaiting\<close>, and the
  destination fields are untouched.\<close>

lemma proceed_waiting:
  assumes "proceed gdb net t now previous s = (None, s', calls)"
    and "myVehicle s' = None"
  shows "\<exists>waitingEdge waitingPos.
           myWaitingEdge s' = Some waitingEdge \<and> myWaitingPos s' = Some waitingPos
           \<and> calls = registerWaiting t now waitingEdge waitingPos s'
           \<and> myLines s' = myLines s \<and> myDestination s' = myDestination s
           \<and> myArrivalPos s' = myArrivalPos s"
proof (cases "transportable_departProcedure t = DEPART_TRIGGERED
         \<and> transportable_getNumRemainingStages t = transportable_getNumStages t - 1")
  case True
  with assms show ?thesis
    by (auto simp add: proceed_def Let_def setVehicle_bound split: if_splits option.splits)
next
  case False
  define s2 where "s2 =
    (case (if previous_getStageType previous = TRIP
           then previous_getOriginStop previous
           else previous_getDestinationStop previous) of
       Some st \<Rightarrow>
         s\<lparr> myWaitingSince := now,
            myWaitingEdge := Some (stop_getLane_getEdge st),
            myStopWaitPos := stop_getWaitPosition st t,
            myWaitingPos := Some (stop_getWaitingPositionOnLane st t) \<rparr>
     | None \<Rightarrow>
         s\<lparr> myWaitingSince := now,
            myWaitingEdge := previous_getEdge previous,
            myStopWaitPos := Position_INVALID,
            myWaitingPos := Some (previous_getEdgePos previous now) \<rparr>)"
  have keep: "myLines s2 = myLines s" "myDestination s2 = myDestination s"
    "myArrivalPos s2 = myArrivalPos s"
    by (simp_all add: s2_def split: option.split)
  from assms(1) False have r:
    "(case (myWaitingEdge s2, myWaitingPos s2) of
        (Some waitingEdge, Some waitingPos) \<Rightarrow>
          (case net_getWaitingVehicle net waitingEdge t waitingPos of
             Some availableVehicle \<Rightarrow>
               (if ((transportable_isPerson t
                     \<and> vehicle_departProcedure (net_vehicle net availableVehicle) = DEPART_TRIGGERED)
                    \<or> (\<not> transportable_isPerson t
                        \<and> vehicle_departProcedure (net_vehicle net availableVehicle)
                            = DEPART_CONTAINER_TRIGGERED))
                   \<and> \<not> vehicle_hasDeparted (net_vehicle net availableVehicle)
                then (None, setVehicle gdb net availableVehicle s2,
                      [Vehicle_addTransportable availableVehicle t,
                       InsertionControl_add availableVehicle,
                       Edge_removeWaiting waitingEdge availableVehicle,
                       VehicleControl_unregisterOneWaiting True])
                else (None, s2, registerWaiting t now waitingEdge waitingPos s2))
           | None \<Rightarrow> (None, s2, registerWaiting t now waitingEdge waitingPos s2))
      | _ \<Rightarrow> (Some NullPointerDereference, s2, [])) = (None, s', calls)"
    unfolding proceed_def Let_def s2_def by (simp split: option.split)
  show ?thesis
  proof (cases "myWaitingEdge s2")
    case None
    with r show ?thesis by simp
  next
    case we: (Some waitingEdge)
    show ?thesis
    proof (cases "myWaitingPos s2")
      case None
      with r we show ?thesis by simp
    next
      case wp: (Some waitingPos)
      from r we wp assms(2)
      have "s' = s2 \<and> calls = registerWaiting t now waitingEdge waitingPos s2"
        by (simp add: setVehicle_bound split: option.splits if_splits)
          (use setVehicle_bound in fastforce)+
      with we wp keep show ?thesis by simp
    qed
  qed
qed

text \<open>In the scenario, a transportable with a given departure time that comes from stop A
  finds no vehicle and waits on the edge of stop A.\<close>

lemma taxi_waiting:
  assumes "transportable_departProcedure t = DEPART_GIVEN"
  shows "proceed stretch (netWith (busAt 15 True) 0) t 3000 (arrivedAt (Some stopA))
           (rideTo None [''taxi''])
         = (None,
            (rideTo None [''taxi''])\<lparr> myWaitingSince := 3000, myWaitingEdge := Some edge1,
               myStopWaitPos := (15, 2, 0), myWaitingPos := Some 15 \<rparr>,
            registerWaiting t 3000 edge1 15
              ((rideTo None [''taxi''])\<lparr> myWaitingSince := 3000, myWaitingEdge := Some edge1,
                 myStopWaitPos := (15, 2, 0), myWaitingPos := Some 15 \<rparr>))"
  using assms by (simp add: proceed_def Let_def netWith_def arrivedAt_def stopA_def)

subsection \<open>Arrival\<close>

text \<open>C1. When \<open>setArrived\<close> is called on a stage that is bound to a vehicle, the
  finalized travelled distance is the vehicle's route-distance from its departure position
  to its current position minus the distance stored before the call, which is the baseline
  that \<open>setVehicle\<close> stored at bind time; the arrival position becomes the vehicle's
  position on its lane exactly when the vehicle is stopped and is kept otherwise. On a
  stage that has no vehicle the travelled distance becomes -1.\<close>

theorem setArrived_finalizes_distance:
  "(myVehicle s = Some v \<longrightarrow>
      myVehicleDistance (snd (setArrived gdb net t now s))
        = routeDistance gdb (net_vehicle net v) - myVehicleDistance s
      \<and> myArrivalPos (snd (setArrived gdb net t now s))
        = (if vehicle_isStopped (net_vehicle net v)
           then vehicle_getPositionOnLane (net_vehicle net v) else myArrivalPos s))
   \<and> (myVehicle s = None \<longrightarrow> myVehicleDistance (snd (setArrived gdb net t now s)) = - 1)
   \<and> myVehicleDistance (snd (setArrived gdb net t now (setVehicle gdb net0 v s0)))
        = routeDistance gdb (net_vehicle net v) - routeDistance gdb (net_vehicle net0 v)"
  by (simp add: setArrived_def setVehicle_def MSStage_setArrived_def routeDistance_def Let_def)

text \<open>The bus is bound at position 15 and has stopped at position 40 when the person
  arrives, short of the requested arrival position 120: 25 travelled, arrival position 40.
  The same arrival on the stage that was never bound gives -1.\<close>

theorem setArrived_finalizes_distance_witness:
  "myVehicle (setVehicle stretch (netWith (busAt 15 True) 0) 0 (rideTo (Some stopB) [''42'']))
     = Some 0
   \<and> myVehicleDistance (snd (setArrived stretch (netWith (busAt 40 True) 9000) person0 9000
        (setVehicle stretch (netWith (busAt 15 True) 0) 0 (rideTo (Some stopB) [''42''])))) = 25
   \<and> myArrivalPos (snd (setArrived stretch (netWith (busAt 40 True) 9000) person0 9000
        (setVehicle stretch (netWith (busAt 15 True) 0) 0 (rideTo (Some stopB) [''42''])))) = 40
   \<and> myVehicle (rideTo (Some stopB) [''42'']) = None
   \<and> myVehicleDistance (snd (setArrived stretch (netWith (busAt 40 True) 9000) person0 9000
        (rideTo (Some stopB) [''42'']))) = - 1"
  using setArrived_finalizes_distance
      [of "setVehicle stretch (netWith (busAt 15 True) 0) 0 (rideTo (Some stopB) [''42''])" 0
        stretch "netWith (busAt 40 True) 9000" person0 9000
        "netWith (busAt 15 True) 0" "rideTo (Some stopB) [''42'']"]
    setArrived_finalizes_distance
      [of "rideTo (Some stopB) [''42'']" 0 stretch "netWith (busAt 40 True) 9000" person0 9000]
  by (simp add: setVehicle_def rideTo_def MSStageDriving_new_record routeDistance_def netWith_def
      busAt_def stretch_def)

text \<open>C9. \<open>setArrived\<close> returns the empty string in every state of the stage: the
  optional error string of the termination protocol is never populated.\<close>

theorem setArrived_returns_empty: "fst (setArrived gdb net t now s) = []"
  by (simp add: setArrived_def Let_def split: option.split)

subsection \<open>Matching\<close>

text \<open>C2. \<open>isWaitingFor\<close> is true if and only if the vehicle's id is in the accepted
  lines, or its line label is, or the accepted lines contain "ANY" and the vehicle stops at
  the destination: at the destination stop when one is set, at the destination edge
  otherwise.\<close>

theorem isWaitingFor_iff:
  "isWaitingFor s vehicle \<longleftrightarrow>
     (vehicle_getID vehicle |\<in>| myLines s
      \<or> vehicle_line vehicle |\<in>| myLines s
      \<or> (''ANY'' |\<in>| myLines s \<and>
          (case myDestinationStop s of
             Some stop \<Rightarrow> vehicle_stopsAt vehicle stop
           | None \<Rightarrow> vehicle_stopsAtEdge vehicle (myDestination s))))"
  by (simp add: isWaitingFor_def count_fset_def)

text \<open>The bus of line 42 is accepted by its line, by "ANY" through the destination stop B
  and through the destination edge, and refused by a stage that waits for line 7.\<close>

theorem isWaitingFor_iff_witness:
  "isWaitingFor (rideTo (Some stopB) [''42'']) (busAt 15 False)
   \<and> isWaitingFor (rideTo (Some stopB) [''ANY'']) (busAt 15 False)
   \<and> isWaitingFor (rideTo None [''ANY'']) (busAt 15 False)
   \<and> \<not> isWaitingFor (rideTo (Some stopA) [''ANY'']) (busAt 15 False)
   \<and> \<not> isWaitingFor (rideTo (Some stopB) [''7'']) (busAt 15 False)"
  using isWaitingFor_iff [of "rideTo (Some stopB) [''42'']" "busAt 15 False"]
    isWaitingFor_iff [of "rideTo (Some stopB) [''ANY'']" "busAt 15 False"]
    isWaitingFor_iff [of "rideTo None [''ANY'']" "busAt 15 False"]
    isWaitingFor_iff [of "rideTo (Some stopA) [''ANY'']" "busAt 15 False"]
    isWaitingFor_iff [of "rideTo (Some stopB) [''7'']" "busAt 15 False"]
  by (simp add: rideTo_def MSStageDriving_new_record busAt_def stopA_def stopB_def)

subsection \<open>Queries\<close>

text \<open>C4. For every time \<open>now\<close> that is not before \<open>waitingSince\<close>, \<open>getWaitingTime\<close>
  returns \<open>now - waitingSince\<close> while no vehicle is bound and 0 once one is.\<close>

theorem getWaitingTime_unbound_bound:
  assumes "myWaitingSince s \<le> now"
  shows "(myVehicle s = None \<longrightarrow> getWaitingTime s now = now - myWaitingSince s)
    \<and> (myVehicle s \<noteq> None \<longrightarrow> getWaitingTime s now = 0)
    \<and> 0 \<le> getWaitingTime s now"
  using assms by (simp add: getWaitingTime_def isWaiting4Vehicle_def)

text \<open>Waiting since 3000: at 10000 the unbound stage has waited 7000, the bound one 0.\<close>

theorem getWaitingTime_unbound_bound_witness:
  "myWaitingSince ((rideTo None [''42''])\<lparr> myWaitingSince := 3000 \<rparr>) \<le> 10000
   \<and> myVehicle ((rideTo None [''42''])\<lparr> myWaitingSince := 3000 \<rparr>) = None
   \<and> getWaitingTime ((rideTo None [''42''])\<lparr> myWaitingSince := 3000 \<rparr>) 10000 = 7000
   \<and> myWaitingSince (setVehicle stretch (netWith (busAt 15 True) 0) 0
        ((rideTo None [''42''])\<lparr> myWaitingSince := 3000 \<rparr>)) \<le> 10000
   \<and> myVehicle (setVehicle stretch (netWith (busAt 15 True) 0) 0
        ((rideTo None [''42''])\<lparr> myWaitingSince := 3000 \<rparr>)) \<noteq> None
   \<and> getWaitingTime (setVehicle stretch (netWith (busAt 15 True) 0) 0
        ((rideTo None [''42''])\<lparr> myWaitingSince := 3000 \<rparr>)) 10000 = 0"
proof -
  have h1: "myWaitingSince ((rideTo None [''42''])\<lparr> myWaitingSince := 3000 \<rparr>) \<le> 10000"
    by simp
  have h2: "myWaitingSince (setVehicle stretch (netWith (busAt 15 True) 0) 0
        ((rideTo None [''42''])\<lparr> myWaitingSince := 3000 \<rparr>)) \<le> 10000"
    by (simp add: setVehicle_def)
  from getWaitingTime_unbound_bound [OF h1] getWaitingTime_unbound_bound [OF h2] h1 h2
  show ?thesis
    by (simp add: setVehicle_def rideTo_def MSStageDriving_new_record)
qed

text \<open>C8. In every state of the stage, \<open>getEdges\<close> returns exactly two elements, the
  origin edge (the waiting edge) and then the destination edge; the list does not depend on
  the bound vehicle, so no edge of the vehicle's route enters it.\<close>

theorem getEdges_origin_destination:
  "getEdges s = [getFromEdge s, myDestination s]
   \<and> length (getEdges s) = 2
   \<and> getFromEdge s = myWaitingEdge s
   \<and> getEdges (s\<lparr> myVehicle := v \<rparr>) = getEdges s"
  by (simp add: getEdges_def getFromEdge_def)

subsection \<open>Cloning\<close>

text \<open>C10. Whatever the state of a stage, its clone has the same destination edge,
  destination stop, arrival position, accepted lines, intended vehicle id and intended
  departure time, and is in the initial unbound state: no vehicle, travelled distance -1,
  waiting since -1, cached vehicle id "NULL".\<close>

theorem clone_fresh_copy:
  "myDestination (clone s) = myDestination s
   \<and> myDestinationStop (clone s) = myDestinationStop s
   \<and> myArrivalPos (clone s) = myArrivalPos s
   \<and> myLines (clone s) = myLines s
   \<and> myIntendedVehicleID (clone s) = myIntendedVehicleID s
   \<and> myIntendedDepart (clone s) = myIntendedDepart s
   \<and> myVehicle (clone s) = None
   \<and> myVehicleDistance (clone s) = - 1
   \<and> myWaitingSince (clone s) = - 1
   \<and> myVehicleID (clone s) = ''NULL''"
  by (simp add: clone_def MSStageDriving_new_record)

subsection \<open>Activation\<close>

text \<open>C3 (amended). When \<open>proceed\<close> runs in the triggered-departure first-real-stage
  case and the vehicle named by the first entry of the accepted lines is not in the vehicle
  registry, it fails with a process error that names the missing vehicle id and the
  transportable's kind and id. The stage is left as it was before the call except for
  \<open>waitingSince\<close>, which has already been set to the current time.\<close>

theorem proceed_missing_vehicle_error:
  assumes "transportable_departProcedure t = DEPART_TRIGGERED"
    and "transportable_getNumRemainingStages t = transportable_getNumStages t - 1"
    and "myLines s \<noteq> {||}"
    and "net_getVehicle net (fMin (myLines s)) = None"
  shows "proceed gdb net t now previous s =
     (Some (ProcessError
        (''Vehicle '' @ apostrophe @ fMin (myLines s) @ apostrophe
         @ '' not found for triggered departure of ''
         @ (if transportable_isPerson t then ''person'' else ''container'')
         @ '' '' @ apostrophe @ transportable_getID t @ apostrophe @ ''.'')),
      s\<lparr> myWaitingSince := now \<rparr>, [])"
  using assms by (simp add: proceed_def Let_def)

text \<open>A person with triggered departure asks for the vehicle veh0, which the registry
  of the scenario does not know.\<close>

theorem proceed_missing_vehicle_error_witness:
  "transportable_departProcedure triggeredPerson = DEPART_TRIGGERED
   \<and> transportable_getNumRemainingStages triggeredPerson
       = transportable_getNumStages triggeredPerson - 1
   \<and> myLines (rideTo None [''veh0'']) \<noteq> {||}
   \<and> net_getVehicle (netWith (busAt 15 True) 0) (fMin (myLines (rideTo None [''veh0''])))
       = None
   \<and> proceed stretch (netWith (busAt 15 True) 0) triggeredPerson 7000 (arrivedAt None)
        (rideTo None [''veh0''])
      = (Some (ProcessError (''Vehicle '' @ apostrophe @ ''veh0'' @ apostrophe
           @ '' not found for triggered departure of person '' @ apostrophe @ ''p1''
           @ apostrophe @ ''.'')),
         (rideTo None [''veh0''])\<lparr> myWaitingSince := 7000 \<rparr>, [])"
proof -
  have h1: "transportable_departProcedure triggeredPerson = DEPART_TRIGGERED"
    by (simp add: triggeredPerson_def)
  have h2: "transportable_getNumRemainingStages triggeredPerson
      = transportable_getNumStages triggeredPerson - 1"
    by (simp add: triggeredPerson_def)
  have l: "myLines (rideTo None [''veh0'']) = {|''veh0''|}"
    by (simp add: rideTo_def MSStageDriving_new_record)
  have h3: "myLines (rideTo None [''veh0'']) \<noteq> {||}"
    by (simp add: l)
  have h4: "net_getVehicle (netWith (busAt 15 True) 0) (fMin (myLines (rideTo None [''veh0'']))) = None"
    by (simp add: l netWith_def)
  have p: "transportable_isPerson triggeredPerson" "transportable_getID triggeredPerson = ''p1''"
    by (simp_all add: triggeredPerson_def)
  from proceed_missing_vehicle_error [OF h1 h2 h3 h4, of stretch 7000 "arrivedAt None"]
    h1 h2 h3 h4
  show ?thesis
    by (simp only: l p fMin_finsert if_True simp_thms append_Cons append_Nil)
qed

text \<open>The stage is not left exactly as it was: activated at time 0, the failed activation
  has moved \<open>waitingSince\<close> from -1 to 0.\<close>

theorem proceed_missing_vehicle_counterexample:
  "fst (proceed stretch (netWith (busAt 15 True) 0) triggeredPerson 0 (arrivedAt None)
          (rideTo None [''veh0'']))
     = Some (ProcessError (''Vehicle '' @ apostrophe @ ''veh0'' @ apostrophe
         @ '' not found for triggered departure of person '' @ apostrophe @ ''p1''
         @ apostrophe @ ''.''))
   \<and> fst (snd (proceed stretch (netWith (busAt 15 True) 0) triggeredPerson 0 (arrivedAt None)
          (rideTo None [''veh0''])))
     \<noteq> rideTo None [''veh0'']
   \<and> myWaitingSince (rideTo None [''veh0'']) = - 1
   \<and> myWaitingSince (fst (snd (proceed stretch (netWith (busAt 15 True) 0) triggeredPerson 0
          (arrivedAt None) (rideTo None [''veh0'']))))
     = 0"
  by (simp add: proceed_def Let_def netWith_def triggeredPerson_def rideTo_def
      MSStageDriving_new_record)

text \<open>C5 (amended). Every activation of a person that ends in the waiting state with the
  accepted lines being exactly {"taxi"} submits a pickup reservation that carries the
  current time as request time and as earliest pickup time, the waiting edge and waiting
  position, and the stage's destination edge and arrival position.\<close>

theorem proceed_taxi_person_reservation:
  assumes "proceed gdb net t now previous s = (None, s', calls)"
    and "myVehicle s' = None"
    and "myLines s = {|''taxi''|}"
    and "transportable_isPerson t"
  shows "\<exists>waitingPos. myWaitingPos s' = Some waitingPos
     \<and> myWaitingEdge s' \<noteq> None
     \<and> Taxi_addReservation t now now (myWaitingEdge s') waitingPos
          (myDestination s) (myArrivalPos s) \<in> set calls"
proof -
  from proceed_waiting [OF assms(1,2)] obtain waitingEdge waitingPos where
    w: "myWaitingEdge s' = Some waitingEdge" "myWaitingPos s' = Some waitingPos"
      "calls = registerWaiting t now waitingEdge waitingPos s'"
      "myLines s' = myLines s" "myDestination s' = myDestination s"
      "myArrivalPos s' = myArrivalPos s"
    by blast
  from w assms(3,4) show ?thesis
    by (simp add: registerWaiting_def fcard_single)
qed

text \<open>The person who comes from stop A at time 3000 and waits for a taxi to edge e2,
  position 120: the reservation is the third call.\<close>

theorem proceed_taxi_person_reservation_witness:
  "proceed stretch (netWith (busAt 15 True) 0) person0 3000 (arrivedAt (Some stopA))
     (rideTo None [''taxi''])
   = (None,
      (rideTo None [''taxi''])\<lparr> myWaitingSince := 3000, myWaitingEdge := Some edge1,
         myStopWaitPos := (15, 2, 0), myWaitingPos := Some 15 \<rparr>,
      [PersonControl_addWaiting edge1 person0, Edge_addPerson edge1 person0,
       Taxi_addReservation person0 3000 3000 (Some edge1) 15 (Some edge2) 120])
   \<and> myVehicle ((rideTo None [''taxi''])\<lparr> myWaitingSince := 3000, myWaitingEdge := Some edge1,
         myStopWaitPos := (15, 2, 0), myWaitingPos := Some 15 \<rparr>) = None
   \<and> myLines (rideTo None [''taxi'']) = {|''taxi''|}
   \<and> transportable_isPerson person0
   \<and> Taxi_addReservation person0 3000 3000 (Some edge1) 15 (Some edge2) 120
       \<in> set [PersonControl_addWaiting edge1 person0, Edge_addPerson edge1 person0,
            Taxi_addReservation person0 3000 3000 (Some edge1) 15 (Some edge2) 120]"
proof -
  have p: "transportable_departProcedure person0 = DEPART_GIVEN" "transportable_isPerson person0"
    by (simp_all add: person0_def)
  have h1: "proceed stretch (netWith (busAt 15 True) 0) person0 3000 (arrivedAt (Some stopA))
      (rideTo None [''taxi''])
   = (None,
      (rideTo None [''taxi''])\<lparr> myWaitingSince := 3000, myWaitingEdge := Some edge1,
         myStopWaitPos := (15, 2, 0), myWaitingPos := Some 15 \<rparr>,
      [PersonControl_addWaiting edge1 person0, Edge_addPerson edge1 person0,
       Taxi_addReservation person0 3000 3000 (Some edge1) 15 (Some edge2) 120])"
    using p by (simp add: taxi_waiting)
      (simp add: registerWaiting_def rideTo_def MSStageDriving_new_record fcard_single)
  have h2: "myVehicle ((rideTo None [''taxi''])\<lparr> myWaitingSince := 3000,
         myWaitingEdge := Some edge1,
         myStopWaitPos := (15, 2, 0), myWaitingPos := Some 15 \<rparr>) = None"
    by (simp add: rideTo_def MSStageDriving_new_record)
  have h3: "myLines (rideTo None [''taxi'']) = {|''taxi''|}"
    by (simp add: rideTo_def MSStageDriving_new_record)
  from proceed_taxi_person_reservation [OF h1 h2 h3 p(2)] h1 h2 h3 p(2) show ?thesis
    by simp
qed

text \<open>A container in the same situation ends waiting with accepted lines {"taxi"}, and
  the only calls are the two that register it as waiting: no reservation is submitted.\<close>

theorem proceed_taxi_container_counterexample:
  "proceed stretch (netWith (busAt 15 True) 0) container0 3000 (arrivedAt (Some stopA))
     (rideTo None [''taxi''])
   = (None,
      (rideTo None [''taxi''])\<lparr> myWaitingSince := 3000, myWaitingEdge := Some edge1,
         myStopWaitPos := (15, 2, 0), myWaitingPos := Some 15 \<rparr>,
      [ContainerControl_addWaiting edge1 container0, Edge_addContainer edge1 container0])
   \<and> myVehicle ((rideTo None [''taxi''])\<lparr> myWaitingSince := 3000, myWaitingEdge := Some edge1,
         myStopWaitPos := (15, 2, 0), myWaitingPos := Some 15 \<rparr>) = None
   \<and> myLines (rideTo None [''taxi'']) = {|''taxi''|}"
proof -
  have "transportable_departProcedure container0 = DEPART_GIVEN"
    "\<not> transportable_isPerson container0"
    by (simp_all add: container0_def)
  then show ?thesis
    by (simp add: taxi_waiting) (simp add: registerWaiting_def rideTo_def MSStageDriving_new_record)
qed

subsection \<open>Descriptions and reporting\<close>

text \<open>C6. The waiting description should name the place where the entity waits. A person
  who comes from stop A (on edge e1) and is activated on a ride to stop B waits on the edge
  of stop A, and the description of the waiting stage says "at busStop 'stopB'": it names
  the destination stop of the ride.\<close>

theorem getWaitingDescription_names_destination_stop:
  "fst (proceed stretch (netWith (busAt 15 True) 0) person0 3000 (arrivedAt (Some stopA))
          (rideTo (Some stopB) [''42''])) = None
   \<and> myVehicle (fst (snd (proceed stretch (netWith (busAt 15 True) 0) person0 3000
          (arrivedAt (Some stopA)) (rideTo (Some stopB) [''42''])))) = None
   \<and> myWaitingEdge (fst (snd (proceed stretch (netWith (busAt 15 True) 0) person0 3000
          (arrivedAt (Some stopA)) (rideTo (Some stopB) [''42'']))))
       = Some (stop_getLane_getEdge stopA)
   \<and> getWaitingDescription (fst (snd (proceed stretch (netWith (busAt 15 True) 0) person0 3000
          (arrivedAt (Some stopA)) (rideTo (Some stopB) [''42'']))))
       = Inr (''waiting for 42 at busStop '' @ apostrophe @ ''stopB'' @ apostrophe)"
  by (simp add: proceed_def Let_def netWith_def arrivedAt_def person0_def rideTo_def
      MSStageDriving_new_record getWaitingDescription_def isWaiting4Vehicle_def stopB_def
      sorted_list_of_fset_single)

text \<open>C7. The record emitted by \<open>tripInfoOutput\<close> has as waiting time the effective
  departure time minus \<open>waitingSince\<close>, or -1 if \<open>waitingSince\<close> was never set; its
  duration is arrival minus departure if the stage has arrived, else the current time minus
  departure if it has departed, else -1. \<open>waitingSince\<close> is written by the constructor
  (-1) and by \<open>proceed\<close> (the time of activation) only, and departure follows activation:
  the stages of a run have \<open>waitingSince\<close> not after the effective departure time.\<close>

theorem tripInfoOutput_waitingTime_duration:
  assumes "myWaitingSince s \<le> effectiveDeparture net s"
  shows "attribute ''waitingTime'' (tripInfoOutput net t s)
     = Some (if 0 \<le> myWaitingSince s
             then Time2String (effectiveDeparture net s - myWaitingSince s)
             else Literal ''-1'')
   \<and> attribute ''duration'' (tripInfoOutput net t s)
     = Some (if 0 \<le> myArrived s then Time2String (myArrived s - myDeparted s)
             else if 0 \<le> myDeparted s then Time2String (net_getCurrentTimeStep net - myDeparted s)
             else Literal ''-1'')"
  using assms by (simp add: tripInfoOutput_def effectiveDeparture_def Let_def)

text \<open>Waiting since 3000, departed at 10000, arrived at 60000: waiting time 7000, duration
  50000. Never activated and never departed, reported at 60000: both are -1.\<close>

theorem tripInfoOutput_waitingTime_duration_witness:
  "myWaitingSince ((rideTo None [''42''])\<lparr> myDeparted := 10000, myArrived := 60000,
        myWaitingSince := 3000 \<rparr>)
     \<le> effectiveDeparture (netWith (busAt 40 True) 60000)
         ((rideTo None [''42''])\<lparr> myDeparted := 10000, myArrived := 60000,
            myWaitingSince := 3000 \<rparr>)
   \<and> attribute ''waitingTime'' (tripInfoOutput (netWith (busAt 40 True) 60000) person0
      ((rideTo None [''42''])\<lparr> myDeparted := 10000, myArrived := 60000, myWaitingSince := 3000 \<rparr>))
     = Some (Time2String 7000)
   \<and> attribute ''duration'' (tripInfoOutput (netWith (busAt 40 True) 60000) person0
      ((rideTo None [''42''])\<lparr> myDeparted := 10000, myArrived := 60000, myWaitingSince := 3000 \<rparr>))
     = Some (Time2String 50000)
   \<and> myWaitingSince (rideTo None [''42''])
     \<le> effectiveDeparture (netWith (busAt 40 True) 60000) (rideTo None [''42''])
   \<and> attribute ''waitingTime'' (tripInfoOutput (netWith (busAt 40 True) 60000) person0
      (rideTo None [''42''])) = Some (Literal ''-1'')
   \<and> attribute ''duration'' (tripInfoOutput (netWith (busAt 40 True) 60000) person0
      (rideTo None [''42''])) = Some (Literal ''-1'')"
proof -
  have h1: "myWaitingSince ((rideTo None [''42''])\<lparr> myDeparted := 10000, myArrived := 60000,
        myWaitingSince := 3000 \<rparr>)
     \<le> effectiveDeparture (netWith (busAt 40 True) 60000)
         ((rideTo None [''42''])\<lparr> myDeparted := 10000, myArrived := 60000,
            myWaitingSince := 3000 \<rparr>)"
    by (simp add: effectiveDeparture_def)
  have h2: "myWaitingSince (rideTo None [''42''])
     \<le> effectiveDeparture (netWith (busAt 40 True) 60000) (rideTo None [''42''])"
    by (simp add: effectiveDeparture_def netWith_def rideTo_def MSStageDriving_new_record)
  from tripInfoOutput_waitingTime_duration [OF h1, of person0]
    tripInfoOutput_waitingTime_duration [OF h2, of person0] h1 h2
  show ?thesis
    by (simp add: effectiveDeparture_def netWith_def rideTo_def MSStageDriving_new_record)
qed

end
